theory Spec2Isabelle
  imports Complex_Main
begin

section \<open>Data model\<close>

text \<open>
  The \<open>appointments\<close> table of the service (schema in the README): one row per
  appointment. Dates are day numbers, times of day are minutes since midnight, timestamps
  are milliseconds since the epoch, as JavaScript's \<open>Date\<close> counts them. The column
  \<open>notes\<close> is the field \<open>notes_txt\<close>. The id of the route is taken to be a number
  within the range of the \<open>INTEGER\<close> key, and times of day to be valid.
\<close>

datatype status = SCHEDULED | COMPLETED | CANCELLED | NO_SHOW

type_synonym date = int
type_synonym time_of_day = nat
type_synonym millis = int

record appointment =
  appointment_id :: nat
  patient_id :: int
  doctor_id :: int
  appointment_date :: date
  start_time :: time_of_day
  end_time :: time_of_day
  status :: status
  reason :: "string option"
  notes_txt :: "string option"
  reschedule_count :: int
  version :: int
  created_at :: millis
  updated_at :: millis

text \<open>
  The error codes thrown by the controller (\<open>AppError\<close>'s third argument), together with
  the errors that are not \<open>AppError\<close>s. Three come from the store: a write that breaks
  the primary key or \<open>UNIQUE(doctor_id, appointment_date, start_time)\<close> (23505), a
  statement with a parameter whose type cannot be determined (42P18), and a number that
  does not fit an \<open>INTEGER\<close> column (22003). The last is the \<open>TypeError\<close> of reading a
  property of \<open>undefined\<close>.
\<close>

datatype error =
    APPOINTMENT_NOT_FOUND
  | PATIENT_NOT_FOUND
  | DOCTOR_NOT_FOUND
  | SERVICE_UNAVAILABLE
  | INVALID_DATE
  | SLOT_CONFLICT
  | INVALID_STATUS
  | MAX_RESCHEDULE_EXCEEDED
  | CUTOFF_TIME_EXCEEDED
  | ALREADY_CANCELLED
  | UNIQUE_VIOLATION
  | INDETERMINATE_DATATYPE
  | NUMERIC_VALUE_OUT_OF_RANGE
  | TYPE_ERROR

text \<open>
  The refund policies; \<open>NO_REFUND\<close> is only the value the variable starts with, every
  branch of \<open>cancelAppointment\<close> overwrites it.
\<close>

datatype refund = NO_REFUND | FULL_REFUND | PARTIAL_REFUND | CANCELLATION_FEE

datatype log_entry = Warn string | Info string

text \<open>
  What a handler hands back: \<open>res.json\<close> with the row (\<open>rows[0]\<close>, which is
  \<open>undefined\<close> on an empty result) and, for a cancellation, the refund policy; or
  \<open>next(error)\<close>.
\<close>

datatype response = Success "appointment option" "refund option" | Failure error

section \<open>The store: one pooled client, its transaction, and the pool\<close>

text \<open>
  A handler checks a client out of the pool and issues \<open>BEGIN\<close> on it. Statements sent
  through that client see and change the transaction's own copy of the table
  (\<open>pending\<close>); a statement sent through \<open>pool.query\<close> runs on another connection and
  sees only what is committed. \<open>COMMIT\<close> installs the copy, \<open>ROLLBACK\<close> drops it.
  The serial counter behind \<open>appointment_id\<close> is not transactional: a value drawn
  is gone, whether or not the insert survives. Every statement is recorded with the
  connection that carried it.
\<close>

datatype conn = Client | Pool

datatype stmt = BEGIN | COMMIT | ROLLBACK | SELECT_BY_ID | SELECT_CONFLICT | INSERT | UPDATE

record database =
  rows :: "appointment list"
  last_serial :: nat

record session =
  committed :: "appointment list"
  pending :: "appointment list option"
  serial :: nat
  queries :: "(conn \<times> stmt) list"

definition pool_connect :: "database \<Rightarrow> session" where
  "pool_connect db =
     \<lparr>committed = rows db, pending = None, serial = last_serial db, queries = []\<rparr>"

text \<open>
  What the store holds when the client goes back to the pool. A transaction the handler
  has not closed is not part of it: it stays open on the pooled client, and the handler's
  outcome reports it (\<open>left_open\<close> below).
\<close>

definition release :: "session \<Rightarrow> database" where
  "release s = \<lparr>rows = committed s, last_serial = serial s\<rparr>"

definition issue :: "conn \<Rightarrow> stmt \<Rightarrow> session \<Rightarrow> session" where
  "issue c q s = s\<lparr>queries := queries s @ [(c, q)]\<rparr>"

definition client_view :: "session \<Rightarrow> appointment list" where
  "client_view s = (case pending s of None \<Rightarrow> committed s | Some rs \<Rightarrow> rs)"

definition write_rows :: "(appointment list \<Rightarrow> appointment list) \<Rightarrow> session \<Rightarrow> session" where
  "write_rows f s =
     (case pending s of
        None \<Rightarrow> s\<lparr>committed := f (committed s)\<rparr>
      | Some rs \<Rightarrow> s\<lparr>pending := Some (f rs)\<rparr>)"

definition client_begin :: "session \<Rightarrow> session" where
  "client_begin s =
     issue Client BEGIN
       (case pending s of None \<Rightarrow> s\<lparr>pending := Some (committed s)\<rparr> | Some rs \<Rightarrow> s)"

definition client_commit :: "session \<Rightarrow> session" where
  "client_commit s =
     issue Client COMMIT
       (case pending s of None \<Rightarrow> s | Some rs \<Rightarrow> s\<lparr>committed := rs, pending := None\<rparr>)"

definition client_rollback :: "session \<Rightarrow> session" where
  "client_rollback s = issue Client ROLLBACK (s\<lparr>pending := None\<rparr>)"

text \<open>\<open>SELECT * FROM appointments WHERE appointment_id = $1\<close>, through the client.\<close>

definition select_by_id :: "nat \<Rightarrow> session \<Rightarrow> appointment list \<times> session" where
  "select_by_id i s =
     (filter (\<lambda>r. appointment_id r = i) (client_view s), issue Client SELECT_BY_ID s)"

text \<open>The columns of the table's \<open>UNIQUE\<close> constraint.\<close>

definition slot_key :: "appointment \<Rightarrow> int \<times> date \<times> time_of_day" where
  "slot_key r = (doctor_id r, appointment_date r, start_time r)"

text \<open>The values an \<open>INTEGER\<close> column or parameter takes.\<close>

definition int4 :: "int \<Rightarrow> bool" where
  "int4 v = (- 2147483648 \<le> v \<and> v \<le> 2147483647)"

text \<open>
  \<open>INSERT ... RETURNING *\<close>. A patient or doctor id outside the \<open>INTEGER\<close> range is
  refused when the parameters are bound. Otherwise the next serial value is drawn, and the
  row is refused when that value no longer fits the key, or when its id or its
  (doctor, date, start time) is already taken by a row of any status.
\<close>

definition client_insert ::
  "(nat \<Rightarrow> appointment) \<Rightarrow> session \<Rightarrow> (error + appointment) \<times> session" where
  "client_insert mk s =
     (let i = serial s + 1;
          new = mk i
      in if \<not> int4 (patient_id new) \<or> \<not> int4 (doctor_id new)
         then (Inl NUMERIC_VALUE_OUT_OF_RANGE, issue Client INSERT s)
         else
           (let s' = s\<lparr>serial := i\<rparr>
            in if \<not> int4 (int i)
               then (Inl NUMERIC_VALUE_OUT_OF_RANGE, issue Client INSERT s')
               else if \<exists>r \<in> set (client_view s).
                         appointment_id r = i \<or> slot_key r = slot_key new
               then (Inl UNIQUE_VIOLATION, issue Client INSERT s')
               else (Inr new, issue Client INSERT (write_rows (\<lambda>rs. rs @ [new]) s'))))"

text \<open>
  \<open>UPDATE ... WHERE appointment_id = $n RETURNING *\<close>: every row with that id is
  rewritten by \<open>f\<close>; the update is refused when a rewritten row moves onto the
  (doctor, date, start time) of a row with another id.
\<close>

definition client_update ::
  "nat \<Rightarrow> (appointment \<Rightarrow> appointment) \<Rightarrow> session \<Rightarrow> (error + appointment list) \<times> session" where
  "client_update i f s =
     (let old = client_view s
      in if \<exists>r \<in> set old. appointment_id r = i \<and> slot_key (f r) \<noteq> slot_key r \<and>
              (\<exists>r' \<in> set old. appointment_id r' \<noteq> i \<and> slot_key r' = slot_key (f r))
         then (Inl UNIQUE_VIOLATION, issue Client UPDATE s)
         else (Inr (map f (filter (\<lambda>r. appointment_id r = i) old)),
               issue Client UPDATE
                 (write_rows (map (\<lambda>r. if appointment_id r = i then f r else r)) s)))"

text \<open>
  An \<open>UPDATE\<close> that hands a parameter to \<open>CONCAT\<close> without a cast. \<open>CONCAT\<close> takes
  arguments of any type, so nothing tells the store the type of the parameter, and it
  refuses the statement before a row is touched, whatever \<open>f\<close> would have written.
\<close>

definition client_update_untyped ::
  "nat \<Rightarrow> (appointment \<Rightarrow> appointment) \<Rightarrow> session \<Rightarrow> (error + appointment list) \<times> session" where
  "client_update_untyped i f s = (Inl INDETERMINATE_DATATYPE, issue Client UPDATE s)"

section \<open>The world outside: clock and collaborators\<close>

datatype 'a http = Ok200 'a | NotFound404 | OtherFailure

text \<open>
  The doctor service answers with \<open>response.data.data\<close>, which is \<open>undefined\<close>
  (\<open>None\<close>) when a 200 body carries no \<open>data\<close>, or a descriptor, here its name. The
  patient's descriptor is never looked at.
\<close>

record env =
  clock :: millis
  clock2 :: millis
  current_timestamp :: millis
  patient_service :: "unit http"
  doctor_service :: "string option http"
  billing_up :: bool
  notification_up :: bool

text \<open>
  A date as JavaScript holds it: the text \<open>YYYY-MM-DD\<close>, or a \<open>Date\<close> object. The
  route's validator (\<open>Joi.date()\<close>) turns the date of a request body into a \<open>Date\<close>,
  and the database driver hands a \<open>DATE\<close> column back as a \<open>Date\<close>. Either way the
  store receives the same day.
\<close>

datatype date_value = Date_string date | Date_object date

definition day_of :: "date_value \<Rightarrow> date" where
  "day_of v = (case v of Date_string d \<Rightarrow> d | Date_object d \<Rightarrow> d)"

definition pg_date :: "date \<Rightarrow> date_value" where
  "pg_date d = Date_object d"

text \<open>
  \<open>new Date(`${date}T${time}`)\<close>, as milliseconds. With the date as text the template
  is a local date-time (the server's zone is taken to be UTC). With a \<open>Date\<close> object the
  template holds the object's long form (\<open>Fri Oct 04 2024 ... T10:00\<close>), which does not
  parse: the result is an invalid date, whose time value is \<open>NaN\<close> (\<open>None\<close>).
\<close>

definition newDate :: "date_value \<Rightarrow> time_of_day \<Rightarrow> millis option" where
  "newDate v t =
     (case v of
        Date_string d \<Rightarrow> Some (d * 86400000 + int t * 60000)
      | Date_object d \<Rightarrow> None)"

text \<open>
  \<open>(dateTime - now) / (1000 * 60 * 60)\<close>, \<open>NaN\<close> from an invalid date. The operands
  are whole milliseconds, so the double the source computes compares with 1, 6 and 24
  exactly as the real quotient does. Every comparison with \<open>NaN\<close> is false.
\<close>

definition hoursDiff :: "millis option \<Rightarrow> millis \<Rightarrow> real option" where
  "hoursDiff dateTime now =
     (case dateTime of
        None \<Rightarrow> None
      | Some t \<Rightarrow> Some (real_of_int (t - now) / (1000 * 60 * 60)))"

definition js_less :: "real option \<Rightarrow> real \<Rightarrow> bool" where
  "js_less x y = (case x of None \<Rightarrow> False | Some v \<Rightarrow> v < y)"

definition js_ge :: "real option \<Rightarrow> real \<Rightarrow> bool" where
  "js_ge x y = (case x of None \<Rightarrow> False | Some v \<Rightarrow> v \<ge> y)"

text \<open>\<open>dateTime <= new Date()\<close> on two dates.\<close>

definition not_after :: "millis option \<Rightarrow> millis \<Rightarrow> bool" where
  "not_after dateTime now = (case dateTime of None \<Rightarrow> False | Some t \<Rightarrow> t \<le> now)"

definition validatePatient :: "env \<Rightarrow> error + unit" where
  "validatePatient e =
     (case patient_service e of
        Ok200 p \<Rightarrow> Inr p
      | NotFound404 \<Rightarrow> Inl PATIENT_NOT_FOUND
      | OtherFailure \<Rightarrow> Inl SERVICE_UNAVAILABLE)"

definition validateDoctor :: "env \<Rightarrow> error + string option" where
  "validateDoctor e =
     (case doctor_service e of
        Ok200 d \<Rightarrow> Inr d
      | NotFound404 \<Rightarrow> Inl DOCTOR_NOT_FOUND
      | OtherFailure \<Rightarrow> Inl SERVICE_UNAVAILABLE)"

text \<open>
  \<open>sendNotification\<close> and the billing calls: \<open>axios.post\<close> inside \<open>try\<close>, the
  rejection caught and turned into a warning.
\<close>

definition axios_post :: "bool \<Rightarrow> unit option" where
  "axios_post up = (if up then Some () else None)"

definition sendNotification :: "env \<Rightarrow> log_entry list" where
  "sendNotification e =
     (case axios_post (notification_up e) of
        Some u \<Rightarrow> []
      | None \<Rightarrow> [Warn ''Failed to send notification''])"

definition post_billing :: "env \<Rightarrow> string \<Rightarrow> log_entry list" where
  "post_billing e warning =
     (case axios_post (billing_up e) of Some u \<Rightarrow> [] | None \<Rightarrow> [Warn warning])"

section \<open>The slot conflict check\<close>

text \<open>
  The \<open>WHERE\<close> clause of \<open>checkSlotConflict\<close>. The id from the route is a non-empty
  string, hence truthy, so \<open>Some i\<close> always selects the query with
  \<open>appointment_id != $3\<close>, and \<open>None\<close> (the default \<open>null\<close>) the other one.
\<close>

definition conflicts ::
  "int \<Rightarrow> date \<Rightarrow> time_of_day \<Rightarrow> time_of_day \<Rightarrow> nat option \<Rightarrow> appointment \<Rightarrow> bool" where
  "conflicts doctorId appointmentDate startTime endTime excludeAppointmentId r =
     (doctor_id r = doctorId \<and>
      appointment_date r = appointmentDate \<and>
      status r \<noteq> CANCELLED \<and> status r \<noteq> COMPLETED \<and>
      (case excludeAppointmentId of None \<Rightarrow> True | Some i \<Rightarrow> appointment_id r \<noteq> i) \<and>
      ((start_time r < endTime \<and> end_time r > startTime) \<or>
       (start_time r \<ge> startTime \<and> start_time r < endTime)))"

text \<open>The query goes through \<open>pool.query\<close>; the answer is \<open>result.rows.length > 0\<close>.\<close>

definition checkSlotConflict ::
  "int \<Rightarrow> date \<Rightarrow> time_of_day \<Rightarrow> time_of_day \<Rightarrow> nat option \<Rightarrow> session \<Rightarrow> bool \<times> session" where
  "checkSlotConflict doctorId appointmentDate startTime endTime excludeAppointmentId s =
     (length (filter (conflicts doctorId appointmentDate startTime endTime excludeAppointmentId)
                (committed s)) > 0,
      issue Pool SELECT_CONFLICT s)"

text \<open>
  \<open>await this.checkSlotConflict(...)\<close> with a doctor id taken from a request: the query
  compares it with an \<open>INTEGER\<close> column, and the store refuses a value outside that range
  when the parameter is bound. (In a reschedule the doctor id is read from the column
  itself.)
\<close>

definition await_checkSlotConflict ::
  "int \<Rightarrow> date \<Rightarrow> time_of_day \<Rightarrow> time_of_day \<Rightarrow> nat option \<Rightarrow> session \<Rightarrow>
   (error + bool) \<times> session" where
  "await_checkSlotConflict doctorId appointmentDate startTime endTime excludeAppointmentId s =
     (if int4 doctorId
      then (case checkSlotConflict doctorId appointmentDate startTime endTime
                   excludeAppointmentId s of
              (hasConflict, s') \<Rightarrow> (Inr hasConflict, s'))
      else (Inl NUMERIC_VALUE_OUT_OF_RANGE, issue Pool SELECT_CONFLICT s))"

section \<open>The handlers\<close>

text \<open>
  The outcome of a handler: the response, the store it leaves, the log, the statements
  sent, and the transaction, if any, that is still open on the client when it is released.
\<close>

record outcome =
  response :: response
  db_after :: database
  logged :: "log_entry list"
  sql :: "(conn \<times> stmt) list"
  left_open :: "appointment list option"

text \<open>
  The \<open>try\<close> block of a handler yields the response or the error thrown, with the session
  as it stood at that moment; \<open>catch\<close> issues \<open>ROLLBACK\<close> and passes the error to
  \<open>next\<close>; \<open>finally\<close> releases the client.
\<close>

definition finish :: "(error + response) \<times> session \<times> log_entry list \<Rightarrow> outcome" where
  "finish t =
     (case t of
        (Inr ok, s, l) \<Rightarrow>
          \<lparr>response = ok, db_after = release s, logged = l, sql = queries s,
           left_open = pending s\<rparr>
      | (Inl err, s, l) \<Rightarrow>
          (let s' = client_rollback s
           in \<lparr>response = Failure err, db_after = release s', logged = l, sql = queries s',
               left_open = pending s'\<rparr>))"

record book_request =
  b_patient_id :: int
  b_doctor_id :: int
  b_date :: date_value
  b_start_time :: time_of_day
  b_end_time :: time_of_day
  b_reason :: "string option"
  b_notes :: "string option"

record reschedule_request =
  r_date :: date_value
  r_start_time :: time_of_day
  r_end_time :: time_of_day
  r_reason :: "string option"

text \<open>
  The row \<open>INSERT\<close> builds: the seven columns given, \<open>'SCHEDULED'\<close>, and the schema's
  defaults (\<open>reschedule_count 0\<close>, \<open>version 1\<close>, both timestamps \<open>CURRENT_TIMESTAMP\<close>).
\<close>

definition new_row :: "env \<Rightarrow> book_request \<Rightarrow> nat \<Rightarrow> appointment" where
  "new_row e req i =
     \<lparr>appointment_id = i,
      patient_id = b_patient_id req,
      doctor_id = b_doctor_id req,
      appointment_date = day_of (b_date req),
      start_time = b_start_time req,
      end_time = b_end_time req,
      status = SCHEDULED,
      reason = b_reason req,
      notes_txt = b_notes req,
      reschedule_count = 0,
      version = 1,
      created_at = current_timestamp e,
      updated_at = current_timestamp e\<rparr>"

text \<open>
  After \<open>COMMIT\<close> the handler builds the notification from \<open>doctor.name\<close>; on an
  \<open>undefined\<close> doctor this throws inside the \<open>try\<close>, before anything is logged or
  sent. The notification is not awaited, so its warning comes after the handler's own
  log entry.
\<close>

definition bookAppointment_try ::
  "env \<Rightarrow> book_request \<Rightarrow> session \<Rightarrow> (error + response) \<times> session \<times> log_entry list" where
  "bookAppointment_try e req s0 =
     (let s1 = client_begin s0 in
      case validatePatient e of
        Inl err \<Rightarrow> (Inl err, s1, [])
      | Inr patient \<Rightarrow>
     (case validateDoctor e of
        Inl err \<Rightarrow> (Inl err, s1, [])
      | Inr doctor \<Rightarrow>
      if not_after (newDate (b_date req) (b_start_time req)) (clock e)
      then (Inl INVALID_DATE, s1, [])
      else
     (case await_checkSlotConflict (b_doctor_id req) (day_of (b_date req)) (b_start_time req)
             (b_end_time req) None s1 of
        (Inl err, s2) \<Rightarrow> (Inl err, s2, [])
      | (Inr hasConflict, s2) \<Rightarrow>
      if hasConflict then (Inl SLOT_CONFLICT, s2, [])
      else
     (case client_insert (new_row e req) s2 of
        (Inl err, s3) \<Rightarrow> (Inl err, s3, [])
      | (Inr appointment, s3) \<Rightarrow>
          (let s4 = client_commit s3 in
           case doctor of
             None \<Rightarrow> (Inl TYPE_ERROR, s4, [])
           | Some name \<Rightarrow>
               (Inr (Success (Some appointment) None), s4,
                [Info ''Appointment booked''] @ sendNotification e))))))"

definition bookAppointment :: "env \<Rightarrow> book_request \<Rightarrow> database \<Rightarrow> outcome" where
  "bookAppointment e req db = finish (bookAppointment_try e req (pool_connect db))"

text \<open>\<open>reason || 'No reason provided'\<close>: a missing or empty reason is falsy.\<close>

definition reason_or_default :: "string option \<Rightarrow> string" where
  "reason_or_default r =
     (case r of
        None \<Rightarrow> ''No reason provided''
      | Some t \<Rightarrow> if t = [] then ''No reason provided'' else t)"

text \<open>\<open>CONCAT(COALESCE(notes, ''), E'\n<label>', <text>)\<close>.\<close>

definition append_note :: "string option \<Rightarrow> string \<Rightarrow> string \<Rightarrow> string option" where
  "append_note old label txt =
     Some ((case old of None \<Rightarrow> [] | Some n \<Rightarrow> n) @ [CHR 0x0A] @ label @ txt)"

text \<open>The \<open>SET\<close> clause of the reschedule.\<close>

definition reschedule_row :: "env \<Rightarrow> reschedule_request \<Rightarrow> appointment \<Rightarrow> appointment" where
  "reschedule_row e req r =
     r\<lparr>appointment_date := day_of (r_date req),
       start_time := r_start_time req,
       end_time := r_end_time req,
       reschedule_count := reschedule_count r + 1,
       notes_txt := append_note (notes_txt r) ''Rescheduled: '' (reason_or_default (r_reason req)),
       updated_at := current_timestamp e,
       version := version r + 1\<rparr>"

text \<open>
  The handler reads the date of the stored appointment from the row, where the driver has
  put a \<open>Date\<close>. Its \<open>UPDATE\<close> passes the reason as \<open>$4\<close> straight to \<open>CONCAT\<close>;
  the statements of cancel and complete write \<open>$1::text\<close>.
\<close>

definition rescheduleAppointment_try ::
  "env \<Rightarrow> nat \<Rightarrow> reschedule_request \<Rightarrow> session \<Rightarrow>
   (error + response) \<times> session \<times> log_entry list" where
  "rescheduleAppointment_try e i req s0 =
     (let s1 = client_begin s0 in
      case select_by_id i s1 of
        (existingResult, s2) \<Rightarrow>
     (case existingResult of
        [] \<Rightarrow> (Inl APPOINTMENT_NOT_FOUND, s2, [])
      | existing # others \<Rightarrow>
      if status existing = CANCELLED \<or> status existing = COMPLETED
      then (Inl INVALID_STATUS, s2, [])
      else if reschedule_count existing \<ge> 2
      then (Inl MAX_RESCHEDULE_EXCEEDED, s2, [])
      else if js_less
                (hoursDiff (newDate (pg_date (appointment_date existing)) (start_time existing))
                   (clock e)) 1
      then (Inl CUTOFF_TIME_EXCEEDED, s2, [])
      else if not_after (newDate (r_date req) (r_start_time req)) (clock2 e)
      then (Inl INVALID_DATE, s2, [])
      else
     (case checkSlotConflict (doctor_id existing) (day_of (r_date req)) (r_start_time req)
             (r_end_time req) (Some i) s2 of
        (hasConflict, s3) \<Rightarrow>
      if hasConflict then (Inl SLOT_CONFLICT, s3, [])
      else
     (case client_update_untyped i (reschedule_row e req) s3 of
        (Inl err, s4) \<Rightarrow> (Inl err, s4, [])
      | (Inr result, s4) \<Rightarrow>
          (let s5 = client_commit s4 in
           case result of
             [] \<Rightarrow> (Inl TYPE_ERROR, s5, [])
           | appointment # rest \<Rightarrow>
               (Inr (Success (Some appointment) None), s5,
                [Info ''Appointment rescheduled''] @ sendNotification e))))))"

definition rescheduleAppointment ::
  "env \<Rightarrow> nat \<Rightarrow> reschedule_request \<Rightarrow> database \<Rightarrow> outcome" where
  "rescheduleAppointment e i req db =
     finish (rescheduleAppointment_try e i req (pool_connect db))"

text \<open>\<open>COALESCE($1::text, <default>)\<close>: only a missing text is replaced.\<close>

definition coalesce :: "string option \<Rightarrow> string \<Rightarrow> string" where
  "coalesce t dflt = (case t of None \<Rightarrow> dflt | Some x \<Rightarrow> x)"

definition cancel_row :: "env \<Rightarrow> string option \<Rightarrow> appointment \<Rightarrow> appointment" where
  "cancel_row e why r =
     r\<lparr>status := CANCELLED,
       notes_txt := append_note (notes_txt r) ''Cancelled: '' (coalesce why ''No reason provided''),
       updated_at := current_timestamp e\<rparr>"

text \<open>The refund tier of \<open>cancelAppointment\<close>, from the hours left to the appointment.\<close>

definition refundPolicy :: "real option \<Rightarrow> refund" where
  "refundPolicy hours =
     (if js_ge hours 24 then FULL_REFUND
      else if js_ge hours 6 then PARTIAL_REFUND
      else CANCELLATION_FEE)"

definition first_row :: "appointment list \<Rightarrow> appointment option" where
  "first_row rs = (case rs of [] \<Rightarrow> None | r # rest \<Rightarrow> Some r)"

definition cancelAppointment_try ::
  "env \<Rightarrow> nat \<Rightarrow> string option \<Rightarrow> session \<Rightarrow>
   (error + response) \<times> session \<times> log_entry list" where
  "cancelAppointment_try e i why s0 =
     (let s1 = client_begin s0 in
      case select_by_id i s1 of
        (result, s2) \<Rightarrow>
     (case result of
        [] \<Rightarrow> (Inl APPOINTMENT_NOT_FOUND, s2, [])
      | appointment # others \<Rightarrow>
      if status appointment = CANCELLED then (Inl ALREADY_CANCELLED, s2, [])
      else if status appointment = COMPLETED then (Inl INVALID_STATUS, s2, [])
      else
     (case client_update i (cancel_row e why) s2 of
        (Inl err, s3) \<Rightarrow> (Inl err, s3, [])
      | (Inr updateResult, s3) \<Rightarrow>
          (let cancelledAppointment = first_row updateResult;
               policy = refundPolicy
                 (hoursDiff
                    (newDate (pg_date (appointment_date appointment)) (start_time appointment))
                    (clock e));
               s4 = client_commit s3
           in (Inr (Success cancelledAppointment (Some policy)), s4,
               post_billing e ''Failed to notify billing service'' @
               [Info ''Appointment cancelled''] @ sendNotification e)))))"

definition cancelAppointment :: "env \<Rightarrow> nat \<Rightarrow> string option \<Rightarrow> database \<Rightarrow> outcome" where
  "cancelAppointment e i why db = finish (cancelAppointment_try e i why (pool_connect db))"

definition complete_row :: "env \<Rightarrow> string option \<Rightarrow> appointment \<Rightarrow> appointment" where
  "complete_row e txt r =
     r\<lparr>status := COMPLETED,
       notes_txt := append_note (notes_txt r) ''Completion notes: '' (coalesce txt ''No notes''),
       updated_at := current_timestamp e\<rparr>"

definition completeAppointment_try ::
  "env \<Rightarrow> nat \<Rightarrow> string option \<Rightarrow> session \<Rightarrow>
   (error + response) \<times> session \<times> log_entry list" where
  "completeAppointment_try e i txt s0 =
     (let s1 = client_begin s0 in
      case select_by_id i s1 of
        (result, s2) \<Rightarrow>
     (case result of
        [] \<Rightarrow> (Inl APPOINTMENT_NOT_FOUND, s2, [])
      | appointment # others \<Rightarrow>
      if status appointment \<noteq> SCHEDULED then (Inl INVALID_STATUS, s2, [])
      else
     (case client_update i (complete_row e txt) s2 of
        (Inl err, s3) \<Rightarrow> (Inl err, s3, [])
      | (Inr updateResult, s3) \<Rightarrow>
          (let completedAppointment = first_row updateResult;
               s4 = client_commit s3
           in (Inr (Success completedAppointment None), s4,
               post_billing e ''Failed to generate bill'' @
               [Info ''Appointment completed''])))))"

definition completeAppointment :: "env \<Rightarrow> nat \<Rightarrow> string option \<Rightarrow> database \<Rightarrow> outcome" where
  "completeAppointment e i txt db =
     finish (completeAppointment_try e i txt (pool_connect db))"

definition no_show_row :: "env \<Rightarrow> appointment \<Rightarrow> appointment" where
  "no_show_row e r = r\<lparr>status := NO_SHOW, updated_at := current_timestamp e\<rparr>"

definition markNoShow_try ::
  "env \<Rightarrow> nat \<Rightarrow> session \<Rightarrow> (error + response) \<times> session \<times> log_entry list" where
  "markNoShow_try e i s0 =
     (let s1 = client_begin s0 in
      case select_by_id i s1 of
        (result, s2) \<Rightarrow>
     (case result of
        [] \<Rightarrow> (Inl APPOINTMENT_NOT_FOUND, s2, [])
      | appointment # others \<Rightarrow>
      if status appointment \<noteq> SCHEDULED then (Inl INVALID_STATUS, s2, [])
      else
     (case client_update i (no_show_row e) s2 of
        (Inl err, s3) \<Rightarrow> (Inl err, s3, [])
      | (Inr updateResult, s3) \<Rightarrow>
          (let s4 = client_commit s3
           in (Inr (Success (first_row updateResult) None), s4,
               post_billing e ''Failed to generate no-show fee'' @
               [Info ''Appointment marked as no-show''])))))"

definition markNoShow :: "env \<Rightarrow> nat \<Rightarrow> database \<Rightarrow> outcome" where
  "markNoShow e i db = finish (markNoShow_try e i (pool_connect db))"

section \<open>Commands and their sequences\<close>

datatype command =
    Book book_request
  | Reschedule nat reschedule_request
  | Cancel nat "string option"
  | Complete nat "string option"
  | NoShow nat

fun exec :: "env \<Rightarrow> command \<Rightarrow> database \<Rightarrow> outcome" where
  "exec e (Book req) db = bookAppointment e req db"
| "exec e (Reschedule i req) db = rescheduleAppointment e i req db"
| "exec e (Cancel i why) db = cancelAppointment e i why db"
| "exec e (Complete i txt) db = completeAppointment e i txt db"
| "exec e (NoShow i) db = markNoShow e i db"

text \<open>
  Requests served one after another, each under its own clock and collaborators, each on
  a client with no transaction open.
\<close>

fun run :: "(env \<times> command) list \<Rightarrow> database \<Rightarrow> database" where
  "run [] db = db"
| "run ((e, c) # cs) db = run cs (db_after (exec e c db))"

definition empty_db :: database where
  "empty_db = \<lparr>rows = [], last_serial = 0\<rparr>"

section \<open>Vocabulary for stating the properties\<close>

text \<open>The rows the handler's \<open>SELECT\<close> returns for an id; the handler reads the first.\<close>

definition matching :: "nat \<Rightarrow> database \<Rightarrow> appointment list" where
  "matching i db = filter (\<lambda>r. appointment_id r = i) (rows db)"

text \<open>The table after every row with the id has been rewritten.\<close>

definition rewrite :: "nat \<Rightarrow> (appointment \<Rightarrow> appointment) \<Rightarrow> database \<Rightarrow> database" where
  "rewrite i f db =
     db\<lparr>rows := map (\<lambda>r. if appointment_id r = i then f r else r) (rows db)\<rparr>"

text \<open>The answer of \<open>checkSlotConflict\<close> against a database.\<close>

definition hasConflict ::
  "int \<Rightarrow> date \<Rightarrow> time_of_day \<Rightarrow> time_of_day \<Rightarrow> nat option \<Rightarrow> database \<Rightarrow> bool" where
  "hasConflict doctorId appointmentDate startTime endTime excludeAppointmentId db =
     fst (checkSlotConflict doctorId appointmentDate startTime endTime excludeAppointmentId
            (pool_connect db))"

text \<open>A handler that fails, leaves the database as given and no transaction open.\<close>

definition failed :: "error \<Rightarrow> database \<Rightarrow> (conn \<times> stmt) list \<Rightarrow> outcome" where
  "failed err db q =
     \<lparr>response = Failure err, db_after = db, logged = [], sql = q, left_open = None\<rparr>"

text \<open>Ids are unique (the primary key) and no row was rescheduled more than twice.\<close>

definition within_cap :: "database \<Rightarrow> bool" where
  "within_cap db =
     (distinct (map appointment_id (rows db)) \<and>
      (\<forall>r \<in> set (rows db). reschedule_count r \<le> 2))"

text \<open>
  Which handlers post to the notification service, and the warning each handler with a
  billing call logs when that call fails.
\<close>

fun calls_notification :: "command \<Rightarrow> bool" where
  "calls_notification (Book req) = True"
| "calls_notification (Reschedule i req) = True"
| "calls_notification (Cancel i why) = True"
| "calls_notification (Complete i txt) = False"
| "calls_notification (NoShow i) = False"

fun billing_warning :: "command \<Rightarrow> string option" where
  "billing_warning (Book req) = None"
| "billing_warning (Reschedule i req) = None"
| "billing_warning (Cancel i why) = Some ''Failed to notify billing service''"
| "billing_warning (Complete i txt) = Some ''Failed to generate bill''"
| "billing_warning (NoShow i) = Some ''Failed to generate no-show fee''"

subsection \<open>Sample data\<close>

text \<open>
  Day 20000 at 10:00 is instant 1728036000000; the sample clock stands about 287 hours
  earlier. Both best-effort collaborators are down. Requests carry their date as the
  route's validator leaves it, a \<open>Date\<close>.
\<close>

definition ex_env :: env where
  "ex_env =
     \<lparr>clock = 1727000000000, clock2 = 1727000000001, current_timestamp = 1727000000000,
      patient_service = Ok200 (), doctor_service = Ok200 (Some ''Dr. Rao''),
      billing_up = False, notification_up = False\<rparr>"

definition ex_book :: "time_of_day \<Rightarrow> time_of_day \<Rightarrow> book_request" where
  "ex_book s t =
     \<lparr>b_patient_id = 1, b_doctor_id = 7, b_date = Date_object 20000, b_start_time = s,
      b_end_time = t, b_reason = None, b_notes = None\<rparr>"

definition ex_row :: "status \<Rightarrow> appointment" where
  "ex_row st =
     \<lparr>appointment_id = 1, patient_id = 1, doctor_id = 7, appointment_date = 20000,
      start_time = 600, end_time = 630, status = st, reason = None, notes_txt = None,
      reschedule_count = 0, version = 1, created_at = 1727000000000,
      updated_at = 1727000000000\<rparr>"

definition ex_db :: "status \<Rightarrow> database" where
  "ex_db st = \<lparr>rows = [ex_row st], last_serial = 1\<rparr>"

definition ex_move :: reschedule_request where
  "ex_move =
     \<lparr>r_date = Date_object 20001, r_start_time = 660, r_end_time = 690, r_reason = None\<rparr>"

text \<open>Ten minutes later.\<close>

definition ex_later :: env where
  "ex_later =
     ex_env\<lparr>clock := 1727000600000, clock2 := 1727000600001,
             current_timestamp := 1727000600000\<rparr>"

text \<open>The database after one booking, 10:00 to 10:30 with doctor 7, into the empty table.\<close>

definition ex_booked :: database where
  "ex_booked = db_after (bookAppointment ex_env (ex_book 600 630) empty_db)"

text \<open>The sample collaborators at a given instant.\<close>

definition ex_at :: "millis \<Rightarrow> env" where
  "ex_at now = ex_env\<lparr>clock := now, clock2 := now + 1, current_timestamp := now\<rparr>"

text \<open>A table holding the sample appointment with two reschedules on its record.\<close>

definition ex_twice_row :: appointment where
  "ex_twice_row = (ex_row SCHEDULED)\<lparr>reschedule_count := 2, version := 3\<rparr>"

definition ex_twice :: database where
  "ex_twice = \<lparr>rows = [ex_twice_row], last_serial = 1\<rparr>"

text \<open>A booking whose end time, 09:00, lies before its start, 10:00.\<close>

definition ex_backwards :: database where
  "ex_backwards = db_after (bookAppointment ex_env (ex_book 600 540) empty_db)"

text \<open>The doctor service answering 200 with no \<open>data\<close> in the body.\<close>

definition ex_no_doctor :: env where
  "ex_no_doctor = ex_env\<lparr>doctor_service := Ok200 None\<rparr>"

section \<open>What each handler computes\<close>

lemmas session_defs = pool_connect_def release_def issue_def client_view_def write_rows_def
  client_begin_def client_commit_def client_rollback_def select_by_id_def client_insert_def
  client_update_def client_update_untyped_def checkSlotConflict_def
  await_checkSlotConflict_def finish_def Let_def

lemmas shape_defs = failed_def matching_def rewrite_def hasConflict_def

lemmas ex_defs = ex_env_def ex_book_def ex_row_def ex_db_def ex_move_def empty_db_def

lemma slot_key_status [simp]:
  "slot_key (no_show_row e r) = slot_key r"
  "slot_key (cancel_row e w r) = slot_key r"
  "slot_key (complete_row e w r) = slot_key r"
  by (simp_all add: slot_key_def no_show_row_def cancel_row_def complete_row_def)

text \<open>The date of a stored row never yields a number of hours.\<close>

lemma stored_hours [simp]:
  "hoursDiff (newDate (pg_date d) t) now = None"
  "refundPolicy None = CANCELLATION_FEE"
  "js_less None y = False"
  by (simp_all add: hoursDiff_def newDate_def pg_date_def refundPolicy_def js_ge_def
      js_less_def)

lemma markNoShow_eq:
  "markNoShow e i db =
     (case matching i db of
        [] \<Rightarrow> failed APPOINTMENT_NOT_FOUND db
                [(Client, BEGIN), (Client, SELECT_BY_ID), (Client, ROLLBACK)]
      | a # others \<Rightarrow>
          if status a \<noteq> SCHEDULED
          then failed INVALID_STATUS db
                 [(Client, BEGIN), (Client, SELECT_BY_ID), (Client, ROLLBACK)]
          else \<lparr>response = Success (Some (no_show_row e a)) None,
                db_after = rewrite i (no_show_row e) db,
                logged = post_billing e ''Failed to generate no-show fee'' @
                         [Info ''Appointment marked as no-show''],
                sql = [(Client, BEGIN), (Client, SELECT_BY_ID), (Client, UPDATE),
                       (Client, COMMIT)],
                left_open = None\<rparr>)"
  by (simp add: markNoShow_def markNoShow_try_def session_defs shape_defs first_row_def
      split: list.splits)

lemma completeAppointment_eq:
  "completeAppointment e i txt db =
     (case matching i db of
        [] \<Rightarrow> failed APPOINTMENT_NOT_FOUND db
                [(Client, BEGIN), (Client, SELECT_BY_ID), (Client, ROLLBACK)]
      | a # others \<Rightarrow>
          if status a \<noteq> SCHEDULED
          then failed INVALID_STATUS db
                 [(Client, BEGIN), (Client, SELECT_BY_ID), (Client, ROLLBACK)]
          else \<lparr>response = Success (Some (complete_row e txt a)) None,
                db_after = rewrite i (complete_row e txt) db,
                logged = post_billing e ''Failed to generate bill'' @
                         [Info ''Appointment completed''],
                sql = [(Client, BEGIN), (Client, SELECT_BY_ID), (Client, UPDATE),
                       (Client, COMMIT)],
                left_open = None\<rparr>)"
  by (simp add: completeAppointment_def completeAppointment_try_def session_defs shape_defs
      first_row_def split: list.splits)

lemma cancelAppointment_eq:
  "cancelAppointment e i why db =
     (case matching i db of
        [] \<Rightarrow> failed APPOINTMENT_NOT_FOUND db
                [(Client, BEGIN), (Client, SELECT_BY_ID), (Client, ROLLBACK)]
      | a # others \<Rightarrow>
          if status a = CANCELLED
          then failed ALREADY_CANCELLED db
                 [(Client, BEGIN), (Client, SELECT_BY_ID), (Client, ROLLBACK)]
          else if status a = COMPLETED
          then failed INVALID_STATUS db
                 [(Client, BEGIN), (Client, SELECT_BY_ID), (Client, ROLLBACK)]
          else \<lparr>response = Success (Some (cancel_row e why a)) (Some CANCELLATION_FEE),
                db_after = rewrite i (cancel_row e why) db,
                logged = post_billing e ''Failed to notify billing service'' @
                         [Info ''Appointment cancelled''] @ sendNotification e,
                sql = [(Client, BEGIN), (Client, SELECT_BY_ID), (Client, UPDATE),
                       (Client, COMMIT)],
                left_open = None\<rparr>)"
  by (simp add: cancelAppointment_def cancelAppointment_try_def session_defs shape_defs
      first_row_def split: list.splits)

lemma rescheduleAppointment_eq:
  "rescheduleAppointment e i req db =
     (case matching i db of
        [] \<Rightarrow> failed APPOINTMENT_NOT_FOUND db
                [(Client, BEGIN), (Client, SELECT_BY_ID), (Client, ROLLBACK)]
      | a # others \<Rightarrow>
          if status a = CANCELLED \<or> status a = COMPLETED
          then failed INVALID_STATUS db
                 [(Client, BEGIN), (Client, SELECT_BY_ID), (Client, ROLLBACK)]
          else if reschedule_count a \<ge> 2
          then failed MAX_RESCHEDULE_EXCEEDED db
                 [(Client, BEGIN), (Client, SELECT_BY_ID), (Client, ROLLBACK)]
          else if not_after (newDate (r_date req) (r_start_time req)) (clock2 e)
          then failed INVALID_DATE db
                 [(Client, BEGIN), (Client, SELECT_BY_ID), (Client, ROLLBACK)]
          else if hasConflict (doctor_id a) (day_of (r_date req)) (r_start_time req)
                    (r_end_time req) (Some i) db
          then failed SLOT_CONFLICT db
                 [(Client, BEGIN), (Client, SELECT_BY_ID), (Pool, SELECT_CONFLICT),
                  (Client, ROLLBACK)]
          else failed INDETERMINATE_DATATYPE db
                 [(Client, BEGIN), (Client, SELECT_BY_ID), (Pool, SELECT_CONFLICT),
                  (Client, UPDATE), (Client, ROLLBACK)])"
proof (cases "filter (\<lambda>r. appointment_id r = i) (rows db)")
  case Nil
  then show ?thesis
    by (simp add: rescheduleAppointment_def rescheduleAppointment_try_def session_defs
        shape_defs)
next
  case (Cons a others)
  then show ?thesis
    by (simp add: rescheduleAppointment_def rescheduleAppointment_try_def session_defs
        shape_defs)
qed

lemma bookAppointment_eq:
  "bookAppointment e req db =
     (case validatePatient e of
        Inl err \<Rightarrow> failed err db [(Client, BEGIN), (Client, ROLLBACK)]
      | Inr patient \<Rightarrow>
     (case validateDoctor e of
        Inl err \<Rightarrow> failed err db [(Client, BEGIN), (Client, ROLLBACK)]
      | Inr doctor \<Rightarrow>
          if not_after (newDate (b_date req) (b_start_time req)) (clock e)
          then failed INVALID_DATE db [(Client, BEGIN), (Client, ROLLBACK)]
          else if \<not> int4 (b_doctor_id req)
          then failed NUMERIC_VALUE_OUT_OF_RANGE db
                 [(Client, BEGIN), (Pool, SELECT_CONFLICT), (Client, ROLLBACK)]
          else if hasConflict (b_doctor_id req) (day_of (b_date req)) (b_start_time req)
                    (b_end_time req) None db
          then failed SLOT_CONFLICT db
                 [(Client, BEGIN), (Pool, SELECT_CONFLICT), (Client, ROLLBACK)]
          else if \<not> int4 (b_patient_id req)
          then failed NUMERIC_VALUE_OUT_OF_RANGE db
                 [(Client, BEGIN), (Pool, SELECT_CONFLICT), (Client, INSERT),
                  (Client, ROLLBACK)]
          else if \<not> int4 (int (last_serial db + 1))
          then failed NUMERIC_VALUE_OUT_OF_RANGE (db\<lparr>last_serial := last_serial db + 1\<rparr>)
                 [(Client, BEGIN), (Pool, SELECT_CONFLICT), (Client, INSERT),
                  (Client, ROLLBACK)]
          else if \<exists>r \<in> set (rows db). appointment_id r = last_serial db + 1 \<or>
                    slot_key r = slot_key (new_row e req (last_serial db + 1))
          then failed UNIQUE_VIOLATION (db\<lparr>last_serial := last_serial db + 1\<rparr>)
                 [(Client, BEGIN), (Pool, SELECT_CONFLICT), (Client, INSERT),
                  (Client, ROLLBACK)]
          else
            (case doctor of
               None \<Rightarrow>
                 \<lparr>response = Failure TYPE_ERROR,
                  db_after = \<lparr>rows = rows db @ [new_row e req (last_serial db + 1)],
                               last_serial = last_serial db + 1\<rparr>,
                  logged = [],
                  sql = [(Client, BEGIN), (Pool, SELECT_CONFLICT), (Client, INSERT),
                         (Client, COMMIT), (Client, ROLLBACK)],
                  left_open = None\<rparr>
             | Some name \<Rightarrow>
                 \<lparr>response = Success (Some (new_row e req (last_serial db + 1))) None,
                  db_after = \<lparr>rows = rows db @ [new_row e req (last_serial db + 1)],
                               last_serial = last_serial db + 1\<rparr>,
                  logged = [Info ''Appointment booked''] @ sendNotification e,
                  sql = [(Client, BEGIN), (Pool, SELECT_CONFLICT), (Client, INSERT),
                         (Client, COMMIT)],
                  left_open = None\<rparr>)))"
  by (simp add: bookAppointment_def bookAppointment_try_def session_defs shape_defs
      new_row_def split: sum.splits option.splits)

subsection \<open>The sample data, evaluated\<close>

lemmas eval_defs = shape_defs validatePatient_def validateDoctor_def newDate_def hoursDiff_def
  day_of_def pg_date_def not_after_def js_less_def js_ge_def int4_def
  conflicts_def new_row_def slot_key_def reschedule_row_def cancel_row_def
  complete_row_def no_show_row_def append_note_def reason_or_default_def coalesce_def
  refundPolicy_def pool_connect_def checkSlotConflict_def issue_def

lemma ex_booked_eq: "ex_booked = ex_db SCHEDULED"
  by (simp add: ex_booked_def bookAppointment_eq ex_defs eval_defs)

lemma matching_ex_db [simp]:
  "matching 1 (ex_db st) = [ex_row st]"
  "matching (Suc 0) (ex_db st) = [ex_row st]"
  by (simp_all add: matching_def ex_defs)

lemma status_ex_row [simp]: "status (ex_row st) = st"
  by (simp add: ex_row_def)

subsection \<open>Unique ids and the reschedule cap are kept\<close>

lemma within_cap_rewrite:
  assumes "within_cap db"
    and "\<And>r. appointment_id (f r) = appointment_id r"
    and "\<And>r. r \<in> set (rows db) \<Longrightarrow> appointment_id r = i \<Longrightarrow> reschedule_count (f r) \<le> 2"
  shows "within_cap (rewrite i f db)"
proof -
  have ids: "map appointment_id (rows (rewrite i f db)) = map appointment_id (rows db)"
    by (auto simp: rewrite_def assms(2))
  have caps: "\<forall>r \<in> set (rows (rewrite i f db)). reschedule_count r \<le> 2"
    using assms(1,3) by (auto simp: within_cap_def rewrite_def)
  show ?thesis
    unfolding within_cap_def using ids caps assms(1) by (simp add: within_cap_def)
qed

lemma within_cap_status_rows:
  assumes w: "within_cap db"
  shows "within_cap (rewrite i (cancel_row e why) db)"
    and "within_cap (rewrite i (complete_row e txt) db)"
    and "within_cap (rewrite i (no_show_row e) db)"
proof -
  have c: "\<And>r. r \<in> set (rows db) \<Longrightarrow> reschedule_count r \<le> 2"
    using w by (simp add: within_cap_def)
  show "within_cap (rewrite i (cancel_row e why) db)"
    by (rule within_cap_rewrite [OF w]) (simp_all add: cancel_row_def c)
  show "within_cap (rewrite i (complete_row e txt) db)"
    by (rule within_cap_rewrite [OF w]) (simp_all add: complete_row_def c)
  show "within_cap (rewrite i (no_show_row e) db)"
    by (rule within_cap_rewrite [OF w]) (simp_all add: no_show_row_def c)
qed

lemma within_cap_book: "within_cap db \<Longrightarrow> within_cap (db_after (bookAppointment e req db))"
  by (auto simp: bookAppointment_eq failed_def within_cap_def new_row_def
      split: sum.splits option.splits)

lemma within_cap_reschedule:
  "within_cap db \<Longrightarrow> within_cap (db_after (rescheduleAppointment e i req db))"
  by (simp add: rescheduleAppointment_eq failed_def split: list.splits)

lemma within_cap_status:
  assumes "within_cap db"
  shows "within_cap (db_after (cancelAppointment e i why db))"
    and "within_cap (db_after (completeAppointment e i txt db))"
    and "within_cap (db_after (markNoShow e i db))"
  using assms
  by (simp_all add: cancelAppointment_eq completeAppointment_eq markNoShow_eq failed_def
      within_cap_status_rows split: list.splits)

lemma within_cap_exec: "within_cap db \<Longrightarrow> within_cap (db_after (exec e c db))"
  by (cases c) (simp_all add: within_cap_book within_cap_reschedule within_cap_status)

lemma within_cap_run: "within_cap db \<Longrightarrow> within_cap (run cs db)"
  by (induction cs arbitrary: db) (auto simp: within_cap_exec)

subsection \<open>The conflict check as a search\<close>

lemma hasConflict_iff:
  "hasConflict d dt s t ex db \<longleftrightarrow> (\<exists>r \<in> set (rows db). conflicts d dt s t ex r)"
  by (simp add: hasConflict_def checkSlotConflict_def pool_connect_def filter_empty_conv)

subsection \<open>Versions after a rewrite\<close>

lemma map_version_rewrite:
  "map version (rows (rewrite i f db)) =
     map (\<lambda>r. if appointment_id r = i then version (f r) else version r) (rows db)"
  by (auto simp: rewrite_def)

section \<open>Transitions from a terminal status\<close>

text \<open>
  Claim C1, as the handlers have it. Let the appointment the handler reads have a terminal
  status. If it is \<open>COMPLETED\<close>, reschedule, cancel, complete and no-show all fail with
  \<open>INVALID_STATUS\<close>. If it is \<open>CANCELLED\<close>, reschedule, complete and no-show fail with
  \<open>INVALID_STATUS\<close>, and cancel fails with \<open>ALREADY_CANCELLED\<close>. If it is \<open>NO_SHOW\<close>,
  complete and no-show fail with \<open>INVALID_STATUS\<close>, while reschedule is never refused
  for the status and cancel succeeds.
\<close>

theorem terminal_status_transitions:
  assumes "matching i db = a # others"
  shows "(status a = COMPLETED \<longrightarrow>
            response (rescheduleAppointment e i req db) = Failure INVALID_STATUS \<and>
            response (cancelAppointment e i why db) = Failure INVALID_STATUS \<and>
            response (completeAppointment e i txt db) = Failure INVALID_STATUS \<and>
            response (markNoShow e i db) = Failure INVALID_STATUS) \<and>
         (status a = CANCELLED \<longrightarrow>
            response (rescheduleAppointment e i req db) = Failure INVALID_STATUS \<and>
            response (cancelAppointment e i why db) = Failure ALREADY_CANCELLED \<and>
            response (completeAppointment e i txt db) = Failure INVALID_STATUS \<and>
            response (markNoShow e i db) = Failure INVALID_STATUS) \<and>
         (status a = NO_SHOW \<longrightarrow>
            response (completeAppointment e i txt db) = Failure INVALID_STATUS \<and>
            response (markNoShow e i db) = Failure INVALID_STATUS \<and>
            response (rescheduleAppointment e i req db) \<noteq> Failure INVALID_STATUS \<and>
            (\<exists>row tier. response (cancelAppointment e i why db) = Success row tier))"
  using assms
  by (simp add: rescheduleAppointment_eq cancelAppointment_eq completeAppointment_eq
      markNoShow_eq failed_def)

text \<open>The theorem at the sample row, once in each terminal status.\<close>

theorem terminal_status_transitions_witness:
  "matching 1 (ex_db COMPLETED) = [ex_row COMPLETED] \<and>
   matching 1 (ex_db CANCELLED) = [ex_row CANCELLED] \<and>
   matching 1 (ex_db NO_SHOW) = [ex_row NO_SHOW] \<and>
   response (cancelAppointment ex_later 1 None (ex_db COMPLETED)) = Failure INVALID_STATUS \<and>
   response (cancelAppointment ex_later 1 None (ex_db CANCELLED)) = Failure ALREADY_CANCELLED \<and>
   response (markNoShow ex_later 1 (ex_db NO_SHOW)) = Failure INVALID_STATUS"
  using
    terminal_status_transitions
      [of 1 "ex_db COMPLETED" "ex_row COMPLETED" "[]" ex_later ex_move None None]
    terminal_status_transitions
      [of 1 "ex_db CANCELLED" "ex_row CANCELLED" "[]" ex_later ex_move None None]
    terminal_status_transitions
      [of 1 "ex_db NO_SHOW" "ex_row NO_SHOW" "[]" ex_later ex_move None None]
  by simp

text \<open>
  Against the claim as written: book, cancel, cancel again, and the second cancel is
  answered \<open>ALREADY_CANCELLED\<close>, not \<open>INVALID_STATUS\<close>; on a \<open>NO_SHOW\<close> row a cancel
  succeeds, and a reschedule passes the status guard and gets as far as its \<open>UPDATE\<close>.
\<close>

theorem terminal_status_counterexample:
  "ex_booked = ex_db SCHEDULED \<and>
   db_after (cancelAppointment ex_later 1 None ex_booked) =
     \<lparr>rows = [(ex_row CANCELLED)
                \<lparr>notes_txt := Some (CHR 0x0A # ''Cancelled: No reason provided''),
                 updated_at := 1727000600000\<rparr>],
      last_serial = 1\<rparr> \<and>
   response (cancelAppointment ex_later 1 None
              (db_after (cancelAppointment ex_later 1 None ex_booked))) =
     Failure ALREADY_CANCELLED \<and>
   response (cancelAppointment ex_later 1 None (ex_db NO_SHOW)) =
     Success
       (Some ((ex_row CANCELLED)
                \<lparr>notes_txt := Some (CHR 0x0A # ''Cancelled: No reason provided''),
                 updated_at := 1727000600000\<rparr>))
       (Some CANCELLATION_FEE) \<and>
   response (rescheduleAppointment ex_later 1 ex_move (ex_db NO_SHOW)) =
     Failure INDETERMINATE_DATATYPE \<and>
   sql (rescheduleAppointment ex_later 1 ex_move (ex_db NO_SHOW)) =
     [(Client, BEGIN), (Client, SELECT_BY_ID), (Pool, SELECT_CONFLICT), (Client, UPDATE),
      (Client, ROLLBACK)]"
  by (simp add: ex_booked_eq cancelAppointment_eq rescheduleAppointment_eq ex_defs
      ex_later_def eval_defs)

section \<open>The frame of a no-show\<close>

text \<open>
  Claim C10. When the appointment the handler reads is \<open>SCHEDULED\<close>, the no-show command
  succeeds and returns that row with \<open>status = NO_SHOW\<close> and \<open>updated_at\<close> set to the
  current timestamp; id, patient, doctor, date, start and end time, reason, notes,
  reschedule count, version and creation time are as before. The table differs from the
  old one in exactly these two columns of the rows with that id.
\<close>

theorem no_show_frame:
  assumes "matching i db = a # others" and "status a = SCHEDULED"
  shows "\<exists>a'. response (markNoShow e i db) = Success (Some a') None \<and>
           status a' = NO_SHOW \<and>
           updated_at a' = current_timestamp e \<and>
           appointment_id a' = appointment_id a \<and>
           patient_id a' = patient_id a \<and>
           doctor_id a' = doctor_id a \<and>
           appointment_date a' = appointment_date a \<and>
           start_time a' = start_time a \<and>
           end_time a' = end_time a \<and>
           reason a' = reason a \<and>
           notes_txt a' = notes_txt a \<and>
           reschedule_count a' = reschedule_count a \<and>
           version a' = version a \<and>
           created_at a' = created_at a \<and>
           rows (db_after (markNoShow e i db)) =
             map (\<lambda>r. if appointment_id r = i
                      then r\<lparr>status := NO_SHOW, updated_at := current_timestamp e\<rparr>
                      else r) (rows db)"
  using assms by (simp add: markNoShow_eq no_show_row_def rewrite_def)

text \<open>The theorem on the freshly booked sample appointment.\<close>

theorem no_show_frame_witness:
  "matching 1 ex_booked = [ex_row SCHEDULED] \<and>
   status (ex_row SCHEDULED) = SCHEDULED \<and>
   response (markNoShow ex_later 1 ex_booked) =
     Success (Some ((ex_row NO_SHOW)\<lparr>updated_at := 1727000600000\<rparr>)) None \<and>
   rows (db_after (markNoShow ex_later 1 ex_booked)) =
     [(ex_row NO_SHOW)\<lparr>updated_at := 1727000600000\<rparr>]"
proof -
  have m: "matching 1 ex_booked = ex_row SCHEDULED # []"
    by (simp add: ex_booked_eq)
  have s: "status (ex_row SCHEDULED) = SCHEDULED"
    by simp
  from no_show_frame [OF m s, of ex_later] m show ?thesis
    by (auto simp add: ex_booked_eq ex_defs ex_later_def)
qed

section \<open>Slot conflicts\<close>

text \<open>
  Claim C3, with the stored intervals well formed. When every stored appointment ends after
  it starts, \<open>hasConflict\<close> answers true exactly when some stored appointment has the same
  doctor and date, a status other than \<open>CANCELLED\<close> and \<open>COMPLETED\<close> (so a \<open>NO_SHOW\<close>
  still blocks), an id other than the excluded one when one is given, and an interval
  \<open>[s1, e1)\<close> with \<open>s1 < endTime\<close> and \<open>startTime < e1\<close>. Intervals that only share an
  endpoint therefore do not conflict.
\<close>

theorem hasConflict_iff_overlap:
  assumes "\<forall>r \<in> set (rows db). start_time r < end_time r"
  shows "hasConflict doctorId appointmentDate startTime endTime excludeAppointmentId db \<longleftrightarrow>
           (\<exists>r \<in> set (rows db).
              doctor_id r = doctorId \<and>
              appointment_date r = appointmentDate \<and>
              status r \<noteq> CANCELLED \<and> status r \<noteq> COMPLETED \<and>
              (\<forall>i. excludeAppointmentId = Some i \<longrightarrow> appointment_id r \<noteq> i) \<and>
              start_time r < endTime \<and> startTime < end_time r)"
proof -
  have "conflicts doctorId appointmentDate startTime endTime excludeAppointmentId r \<longleftrightarrow>
          doctor_id r = doctorId \<and>
          appointment_date r = appointmentDate \<and>
          status r \<noteq> CANCELLED \<and> status r \<noteq> COMPLETED \<and>
          (\<forall>i. excludeAppointmentId = Some i \<longrightarrow> appointment_id r \<noteq> i) \<and>
          start_time r < endTime \<and> startTime < end_time r"
    if "r \<in> set (rows db)" for r
  proof -
    from that assms have "start_time r < end_time r" by blast
    then show ?thesis
      by (cases excludeAppointmentId) (auto simp: conflicts_def)
  qed
  then show ?thesis
    unfolding hasConflict_iff by blast
qed

text \<open>
  The theorem on the sample row, 10:00 to 10:30: an overlapping candidate conflicts even
  though the row is a \<open>NO_SHOW\<close>; the adjacent candidates before and after do not; the
  row's own id excluded, nothing conflicts; a \<open>COMPLETED\<close> row blocks nothing.
\<close>

theorem hasConflict_iff_overlap_witness:
  "list_all (\<lambda>r. start_time r < end_time r) (rows (ex_db NO_SHOW)) \<and>
   list_all (\<lambda>r. start_time r < end_time r) (rows (ex_db COMPLETED)) \<and>
   hasConflict 7 20000 615 645 None (ex_db NO_SHOW) \<and>
   \<not> hasConflict 7 20000 630 660 None (ex_db NO_SHOW) \<and>
   \<not> hasConflict 7 20000 570 600 None (ex_db NO_SHOW) \<and>
   \<not> hasConflict 7 20000 615 645 (Some 1) (ex_db NO_SHOW) \<and>
   \<not> hasConflict 7 20000 615 645 None (ex_db COMPLETED)"
proof -
  have h: "\<forall>r \<in> set (rows (ex_db st)). start_time r < end_time r" for st
    by (simp add: ex_defs)
  from hasConflict_iff_overlap [OF h, of 7 20000 615 645 None NO_SHOW]
    hasConflict_iff_overlap [OF h, of 7 20000 630 660 None NO_SHOW]
    hasConflict_iff_overlap [OF h, of 7 20000 570 600 None NO_SHOW]
    hasConflict_iff_overlap [OF h, of 7 20000 615 645 "Some 1" NO_SHOW]
    hasConflict_iff_overlap [OF h, of 7 20000 615 645 None COMPLETED]
  show ?thesis by (simp add: ex_defs)
qed

text \<open>
  Against the claim as written, for any stored set: the controller accepts a booking from
  10:00 to 09:00; the candidate 09:30 to 10:30 then conflicts with it, by the query's second
  disjunct, although the overlap rule \<open>s1 < endTime \<and> startTime < e1\<close> does not hold.
\<close>

theorem hasConflict_counterexample:
  "response (bookAppointment ex_env (ex_book 600 540) empty_db) =
     Success (Some ((ex_row SCHEDULED)\<lparr>end_time := 540\<rparr>)) None \<and>
   rows ex_backwards = [(ex_row SCHEDULED)\<lparr>end_time := 540\<rparr>] \<and>
   (570 :: nat) < 630 \<and>
   hasConflict 7 20000 570 630 None ex_backwards \<and>
   \<not> (start_time ((ex_row SCHEDULED)\<lparr>end_time := 540\<rparr>) < 630 \<and>
      570 < end_time ((ex_row SCHEDULED)\<lparr>end_time := 540\<rparr>))"
  by (simp add: ex_backwards_def bookAppointment_eq ex_defs eval_defs)

section \<open>The refund tier\<close>

text \<open>
  Claim C5. The chain of comparisons is the step function the claim describes: 48 hours
  give \<open>FULL_REFUND\<close>, 12 hours \<open>PARTIAL_REFUND\<close>, 3 hours \<open>CANCELLATION_FEE\<close>. But
  the handler never hands it a number of hours. The sample appointment stands at day
  20000, 10:00; cancelled 48 hours before that instant, and cancelled 12 hours before it,
  the answer is \<open>CANCELLATION_FEE\<close> both times, where the claim gives \<open>FULL_REFUND\<close>
  and \<open>PARTIAL_REFUND\<close>.
\<close>

theorem cancel_refund_tier_lost:
  "refundPolicy (Some 48) = FULL_REFUND \<and>
   refundPolicy (Some 12) = PARTIAL_REFUND \<and>
   refundPolicy (Some 3) = CANCELLATION_FEE \<and>
   rows ex_booked = [ex_row SCHEDULED] \<and>
   appointment_date (ex_row SCHEDULED) = 20000 \<and>
   start_time (ex_row SCHEDULED) = 600 \<and>
   (20000 * 86400000 + 600 * 60000) - clock (ex_at 1727863200000) = (48 * 3600000 :: int) \<and>
   response (cancelAppointment (ex_at 1727863200000) 1 None ex_booked) =
     Success
       (Some ((ex_row CANCELLED)
                \<lparr>notes_txt := Some (CHR 0x0A # ''Cancelled: No reason provided''),
                 updated_at := 1727863200000\<rparr>))
       (Some CANCELLATION_FEE) \<and>
   (20000 * 86400000 + 600 * 60000) - clock (ex_at 1727992800000) = (12 * 3600000 :: int) \<and>
   response (cancelAppointment (ex_at 1727992800000) 1 None ex_booked) =
     Success
       (Some ((ex_row CANCELLED)
                \<lparr>notes_txt := Some (CHR 0x0A # ''Cancelled: No reason provided''),
                 updated_at := 1727992800000\<rparr>))
       (Some CANCELLATION_FEE)"
proof -
  have chain: "refundPolicy (Some 48) = FULL_REFUND" "refundPolicy (Some 12) = PARTIAL_REFUND"
    "refundPolicy (Some 3) = CANCELLATION_FEE"
    by (simp_all add: refundPolicy_def js_ge_def)
  have stored: "rows ex_booked = [ex_row SCHEDULED]"
    "appointment_date (ex_row SCHEDULED) = 20000" "start_time (ex_row SCHEDULED) = 600"
    by (simp_all add: ex_booked_eq ex_db_def ex_row_def)
  have ahead:
    "(20000 * 86400000 + 600 * 60000) - clock (ex_at 1727863200000) = (48 * 3600000 :: int)"
    "(20000 * 86400000 + 600 * 60000) - clock (ex_at 1727992800000) = (12 * 3600000 :: int)"
    by (simp_all add: ex_at_def ex_env_def)
  have answer: "response (cancelAppointment (ex_at now) 1 None ex_booked) =
     Success
       (Some ((ex_row CANCELLED)
                \<lparr>notes_txt := Some (CHR 0x0A # ''Cancelled: No reason provided''),
                 updated_at := now\<rparr>))
       (Some CANCELLATION_FEE)" for now
    by (simp add: ex_booked_eq cancelAppointment_eq ex_defs ex_at_def eval_defs)
  from chain stored ahead answer [of 1727863200000] answer [of 1727992800000]
  show ?thesis by simp
qed

section \<open>The reschedule cap\<close>

text \<open>
  Claim C6. A reschedule of a \<open>SCHEDULED\<close> appointment that has already been rescheduled
  twice or more fails with \<open>MAX_RESCHEDULE_EXCEEDED\<close> and leaves the database as it was,
  whatever the clock and whatever the requested time. And from a table with unique ids
  in which no reschedule count exceeds 2, such as the empty one, no sequence of commands
  leads to a row whose count exceeds 2.
\<close>

theorem reschedule_cap:
  "(matching i db = a # others \<and> status a = SCHEDULED \<and> reschedule_count a \<ge> 2 \<longrightarrow>
      response (rescheduleAppointment e i req db) = Failure MAX_RESCHEDULE_EXCEEDED \<and>
      db_after (rescheduleAppointment e i req db) = db) \<and>
   (within_cap db \<longrightarrow> (\<forall>r \<in> set (rows (run cs db)). reschedule_count r \<le> 2))"
proof
  show "matching i db = a # others \<and> status a = SCHEDULED \<and> reschedule_count a \<ge> 2 \<longrightarrow>
      response (rescheduleAppointment e i req db) = Failure MAX_RESCHEDULE_EXCEEDED \<and>
      db_after (rescheduleAppointment e i req db) = db"
    by (simp add: rescheduleAppointment_eq failed_def)
  show "within_cap db \<longrightarrow> (\<forall>r \<in> set (rows (run cs db)). reschedule_count r \<le> 2)"
    using within_cap_run [of db cs] by (simp add: within_cap_def)
qed

text \<open>
  The theorem on a table that holds the sample appointment with a count of 2: an attempt
  half an hour before the appointment and one twelve days before it are both refused for
  the count. And on the empty table with a booking, a reschedule and a cancel run from it.
\<close>

theorem reschedule_cap_witness:
  "matching 1 ex_twice = [ex_twice_row] \<and>
   status ex_twice_row = SCHEDULED \<and>
   reschedule_count ex_twice_row \<ge> 2 \<and>
   (20000 * 86400000 + 600 * 60000) - clock (ex_at 1728034200000) = (30 * 60000 :: int) \<and>
   response (rescheduleAppointment (ex_at 1728034200000) 1 ex_move ex_twice) =
     Failure MAX_RESCHEDULE_EXCEEDED \<and>
   response (rescheduleAppointment ex_env 1 ex_move ex_twice) =
     Failure MAX_RESCHEDULE_EXCEEDED \<and>
   within_cap empty_db \<and>
   list_all (\<lambda>r. reschedule_count r \<le> 2)
     (rows (run [(ex_env, Book (ex_book 600 630)), (ex_later, Reschedule 1 ex_move),
                 (ex_later, Cancel 1 None)] empty_db))"
proof -
  have m: "matching 1 ex_twice = ex_twice_row # []"
    by (simp add: ex_twice_def matching_def ex_twice_row_def ex_row_def)
  have s: "status ex_twice_row = SCHEDULED" "reschedule_count ex_twice_row \<ge> 2"
    by (simp_all add: ex_twice_row_def ex_row_def)
  have w: "within_cap empty_db"
    by (simp add: within_cap_def empty_db_def)
  have t: "(20000 * 86400000 + 600 * 60000) - clock (ex_at 1728034200000) = (30 * 60000 :: int)"
    by (simp add: ex_at_def ex_env_def)
  from reschedule_cap [of 1 ex_twice ex_twice_row "[]" "ex_at 1728034200000" ex_move] m s
  have a: "response (rescheduleAppointment (ex_at 1728034200000) 1 ex_move ex_twice) =
     Failure MAX_RESCHEDULE_EXCEEDED"
    by simp
  from reschedule_cap [of 1 ex_twice ex_twice_row "[]" ex_env ex_move] m s
  have a': "response (rescheduleAppointment ex_env 1 ex_move ex_twice) =
     Failure MAX_RESCHEDULE_EXCEEDED"
    by simp
  from reschedule_cap
         [of 1 empty_db ex_twice_row "[]" ex_env ex_move
             "[(ex_env, Book (ex_book 600 630)), (ex_later, Reschedule 1 ex_move),
               (ex_later, Cancel 1 None)]"] w
  have b: "\<forall>r \<in> set (rows (run [(ex_env, Book (ex_book 600 630)),
               (ex_later, Reschedule 1 ex_move), (ex_later, Cancel 1 None)] empty_db)).
             reschedule_count r \<le> 2"
    by blast
  from m s w t a a' b show ?thesis by (simp only: list_all_iff)
qed

section \<open>The one-hour cutoff\<close>

text \<open>
  Claim C7. The sample appointment stands at day 20000, 10:00, and has never been
  rescheduled. A reschedule attempted half an hour before that instant is not answered
  \<open>CUTOFF_TIME_EXCEEDED\<close>, as the claim has it: the handler goes on to the conflict query
  and to its \<open>UPDATE\<close>, which the store refuses. No reschedule at all, on any table and
  at any time, is answered \<open>CUTOFF_TIME_EXCEEDED\<close>.
\<close>

theorem reschedule_cutoff_lost:
  "rows ex_booked = [ex_row SCHEDULED] \<and>
   appointment_date (ex_row SCHEDULED) = 20000 \<and>
   start_time (ex_row SCHEDULED) = 600 \<and>
   reschedule_count (ex_row SCHEDULED) = 0 \<and>
   (20000 * 86400000 + 600 * 60000) - clock (ex_at 1728034200000) = (30 * 60000 :: int) \<and>
   response (rescheduleAppointment (ex_at 1728034200000) 1 ex_move ex_booked) =
     Failure INDETERMINATE_DATATYPE \<and>
   sql (rescheduleAppointment (ex_at 1728034200000) 1 ex_move ex_booked) =
     [(Client, BEGIN), (Client, SELECT_BY_ID), (Pool, SELECT_CONFLICT), (Client, UPDATE),
      (Client, ROLLBACK)] \<and>
   response (rescheduleAppointment e i req db) \<noteq> Failure CUTOFF_TIME_EXCEEDED"
proof -
  have "response (rescheduleAppointment e i req db) \<noteq> Failure CUTOFF_TIME_EXCEEDED"
    by (simp add: rescheduleAppointment_eq failed_def split: list.splits)
  then show ?thesis
    by (simp add: ex_booked_eq rescheduleAppointment_eq ex_defs ex_at_def eval_defs)
qed

section \<open>The version counter\<close>

text \<open>
  Claim C2, as the handlers have it. An accepted booking creates the row with
  \<open>version = 1\<close>. An accepted cancel, complete or no-show leaves every version, that of
  the appointment included, as it was.
\<close>

theorem version_steps:
  "(response (bookAppointment e req db) = Success row tier \<longrightarrow>
      (\<exists>a'. row = Some a' \<and> version a' = 1 \<and>
            rows (db_after (bookAppointment e req db)) = rows db @ [a'])) \<and>
   (matching i db = a # others \<and>
    response (cancelAppointment e i why db) = Success row tier \<longrightarrow>
      (\<exists>a'. row = Some a' \<and> version a' = version a) \<and>
      map version (rows (db_after (cancelAppointment e i why db))) = map version (rows db)) \<and>
   (matching i db = a # others \<and>
    response (completeAppointment e i body db) = Success row tier \<longrightarrow>
      (\<exists>a'. row = Some a' \<and> version a' = version a) \<and>
      map version (rows (db_after (completeAppointment e i body db))) = map version (rows db)) \<and>
   (matching i db = a # others \<and>
    response (markNoShow e i db) = Success row tier \<longrightarrow>
      (\<exists>a'. row = Some a' \<and> version a' = version a) \<and>
      map version (rows (db_after (markNoShow e i db))) = map version (rows db))"
proof (intro conjI impI)
  assume "response (bookAppointment e req db) = Success row tier"
  then show "\<exists>a'. row = Some a' \<and> version a' = 1 \<and>
            rows (db_after (bookAppointment e req db)) = rows db @ [a']"
    by (auto simp: bookAppointment_eq failed_def new_row_def
        split: sum.splits option.splits if_splits)
next
  assume h: "matching i db = a # others \<and>
    response (cancelAppointment e i why db) = Success row tier"
  then show "\<exists>a'. row = Some a' \<and> version a' = version a"
    by (auto simp: cancelAppointment_eq failed_def cancel_row_def split: if_splits)
  from h show "map version (rows (db_after (cancelAppointment e i why db))) =
      map version (rows db)"
    by (auto simp: cancelAppointment_eq failed_def cancel_row_def map_version_rewrite
        split: if_splits)
next
  assume h: "matching i db = a # others \<and>
    response (completeAppointment e i body db) = Success row tier"
  then show "\<exists>a'. row = Some a' \<and> version a' = version a"
    by (auto simp: completeAppointment_eq failed_def complete_row_def split: if_splits)
  from h show "map version (rows (db_after (completeAppointment e i body db))) =
      map version (rows db)"
    by (auto simp: completeAppointment_eq failed_def complete_row_def map_version_rewrite
        split: if_splits)
next
  assume h: "matching i db = a # others \<and>
    response (markNoShow e i db) = Success row tier"
  then show "\<exists>a'. row = Some a' \<and> version a' = version a"
    by (auto simp: markNoShow_eq failed_def no_show_row_def split: if_splits)
  from h show "map version (rows (db_after (markNoShow e i db))) = map version (rows db)"
    by (auto simp: markNoShow_eq failed_def no_show_row_def map_version_rewrite
        split: if_splits)
qed

text \<open>The theorem on the sample booking and on each of the three commands applied to it.\<close>

theorem version_steps_witness:
  "response (bookAppointment ex_env (ex_book 600 630) empty_db) =
     Success (Some (ex_row SCHEDULED)) None \<and>
   version (ex_row SCHEDULED) = 1 \<and>
   matching 1 ex_booked = [ex_row SCHEDULED] \<and>
   (\<exists>a'. response (cancelAppointment ex_later 1 None ex_booked) =
            Success (Some a') (Some CANCELLATION_FEE) \<and> version a' = 1) \<and>
   (\<exists>a'. response (completeAppointment ex_later 1 None ex_booked) =
            Success (Some a') None \<and> version a' = 1) \<and>
   (\<exists>a'. response (markNoShow ex_later 1 ex_booked) =
            Success (Some a') None \<and> version a' = 1)"
proof -
  have b: "response (bookAppointment ex_env (ex_book 600 630) empty_db) =
     Success (Some (ex_row SCHEDULED)) None"
    by (simp add: bookAppointment_eq ex_defs eval_defs)
  have m: "matching 1 ex_booked = ex_row SCHEDULED # []"
    by (simp add: ex_booked_eq)
  have c: "response (cancelAppointment ex_later 1 None ex_booked) =
     Success (Some (cancel_row ex_later None (ex_row SCHEDULED))) (Some CANCELLATION_FEE)"
    by (simp add: ex_booked_eq cancelAppointment_eq)
  have d: "response (completeAppointment ex_later 1 None ex_booked) =
     Success (Some (complete_row ex_later None (ex_row SCHEDULED))) None"
    by (simp add: ex_booked_eq completeAppointment_eq)
  have n: "response (markNoShow ex_later 1 ex_booked) =
     Success (Some (no_show_row ex_later (ex_row SCHEDULED))) None"
    by (simp add: ex_booked_eq markNoShow_eq)
  from version_steps
         [where e = ex_env and req = "ex_book 600 630" and db = empty_db
            and row = "Some (ex_row SCHEDULED)" and tier = None] b
  have v: "version (ex_row SCHEDULED) = 1"
    by simp
  from version_steps
         [where e = ex_later and db = ex_booked and i = 1 and a = "ex_row SCHEDULED"
            and others = "[]" and why = None
            and row = "Some (cancel_row ex_later None (ex_row SCHEDULED))"
            and tier = "Some CANCELLATION_FEE"] m c v
  have c': "version (cancel_row ex_later None (ex_row SCHEDULED)) = 1"
    by simp
  from version_steps
         [where e = ex_later and db = ex_booked and i = 1 and a = "ex_row SCHEDULED"
            and others = "[]" and body = None
            and row = "Some (complete_row ex_later None (ex_row SCHEDULED))"
            and tier = None] m d v
  have d': "version (complete_row ex_later None (ex_row SCHEDULED)) = 1"
    by simp
  from version_steps
         [where e = ex_later and db = ex_booked and i = 1 and a = "ex_row SCHEDULED"
            and others = "[]"
            and row = "Some (no_show_row ex_later (ex_row SCHEDULED))"
            and tier = None] m n v
  have n': "version (no_show_row ex_later (ex_row SCHEDULED)) = 1"
    by simp
  from b v m c d n c' d' n' show ?thesis by simp
qed

text \<open>
  Against the claim as written: the sample appointment has version 1, and after an accepted
  cancel, complete or no-show its version is still 1.
\<close>

theorem version_counterexample:
  "version (ex_row SCHEDULED) = 1 \<and>
   rows ex_booked = [ex_row SCHEDULED] \<and>
   response (cancelAppointment ex_later 1 None ex_booked) =
     Success
       (Some ((ex_row CANCELLED)
                \<lparr>notes_txt := Some (CHR 0x0A # ''Cancelled: No reason provided''),
                 updated_at := 1727000600000\<rparr>))
       (Some CANCELLATION_FEE) \<and>
   map version (rows (db_after (cancelAppointment ex_later 1 None ex_booked))) = [1] \<and>
   response (completeAppointment ex_later 1 None ex_booked) =
     Success
       (Some ((ex_row COMPLETED)
                \<lparr>notes_txt := Some (CHR 0x0A # ''Completion notes: No notes''),
                 updated_at := 1727000600000\<rparr>))
       None \<and>
   map version (rows (db_after (completeAppointment ex_later 1 None ex_booked))) = [1] \<and>
   response (markNoShow ex_later 1 ex_booked) =
     Success (Some ((ex_row NO_SHOW)\<lparr>updated_at := 1727000600000\<rparr>)) None \<and>
   map version (rows (db_after (markNoShow ex_later 1 ex_booked))) = [1]"
  by (simp add: ex_booked_eq cancelAppointment_eq completeAppointment_eq markNoShow_eq
      ex_defs ex_later_def eval_defs)

section \<open>Failures and the transaction\<close>

text \<open>
  Claim C8. Whatever the transaction holds when an error is thrown, the \<open>catch\<close> block
  hands that very error to \<open>next\<close>, the table keeps its committed rows, and no
  transaction stays open on the client. Every command releases its client with no
  transaction open. When a command fails and has not sent \<open>COMMIT\<close>, the rows are those
  from before the command and the last statement sent is \<open>ROLLBACK\<close>. The one failure
  that comes after \<open>COMMIT\<close> is not one of the transaction: it is the \<open>TypeError\<close> of a
  booking whose doctor service answered without a descriptor. When the response is a
  success the last statement sent is \<open>COMMIT\<close> and no \<open>ROLLBACK\<close> was sent.
\<close>

theorem failure_rolls_back:
  "response (finish (Inl err, s, l)) = Failure err \<and>
   rows (db_after (finish (Inl err, s, l))) = committed s \<and>
   left_open (finish (Inl err, s, l)) = None \<and>
   left_open (exec e c db) = None \<and>
   (response (exec e c db) = Failure err \<and> (Client, COMMIT) \<notin> set (sql (exec e c db)) \<longrightarrow>
      rows (db_after (exec e c db)) = rows db \<and>
      last (sql (exec e c db)) = (Client, ROLLBACK)) \<and>
   (response (exec e c db) = Failure err \<and> (Client, COMMIT) \<in> set (sql (exec e c db)) \<longrightarrow>
      err = TYPE_ERROR \<and> (\<exists>req. c = Book req) \<and> doctor_service e = Ok200 None) \<and>
   (response (exec e c db) = Success row tier \<longrightarrow>
      last (sql (exec e c db)) = (Client, COMMIT) \<and>
      (Client, ROLLBACK) \<notin> set (sql (exec e c db)))"
proof (cases c)
  case (Book req)
  then show ?thesis
    by (simp add: bookAppointment_eq failed_def session_defs validateDoctor_def
        split: sum.splits option.splits http.splits)
next
  case (Reschedule i req)
  then show ?thesis
    by (simp add: rescheduleAppointment_eq failed_def session_defs split: list.splits)
next
  case (Cancel i why)
  then show ?thesis
    by (simp add: cancelAppointment_eq failed_def session_defs split: list.splits)
next
  case (Complete i body)
  then show ?thesis
    by (simp add: completeAppointment_eq failed_def session_defs split: list.splits)
next
  case (NoShow i)
  then show ?thesis
    by (simp add: markNoShow_eq failed_def session_defs split: list.splits)
qed

text \<open>
  The theorem on an error thrown while the transaction holds an emptied table; on a
  booking onto the slot of a cancelled appointment, which the store refuses; on a
  reschedule, whose \<open>UPDATE\<close> the store refuses; on a booking with no doctor descriptor;
  and on an accepted no-show.
\<close>

theorem failure_rolls_back_witness:
  "pending ((pool_connect (ex_db SCHEDULED))\<lparr>pending := Some []\<rparr>) = Some [] \<and>
   rows (db_after (finish (Inl SLOT_CONFLICT,
                           (pool_connect (ex_db SCHEDULED))\<lparr>pending := Some []\<rparr>, []))) =
     [ex_row SCHEDULED] \<and>
   left_open (finish (Inl SLOT_CONFLICT,
                      (pool_connect (ex_db SCHEDULED))\<lparr>pending := Some []\<rparr>, [])) = None \<and>
   response (exec ex_env (Book (ex_book 600 630)) (ex_db CANCELLED)) =
     Failure UNIQUE_VIOLATION \<and>
   sql (exec ex_env (Book (ex_book 600 630)) (ex_db CANCELLED)) =
     [(Client, BEGIN), (Pool, SELECT_CONFLICT), (Client, INSERT), (Client, ROLLBACK)] \<and>
   rows (db_after (exec ex_env (Book (ex_book 600 630)) (ex_db CANCELLED))) =
     rows (ex_db CANCELLED) \<and>
   response (exec ex_later (Reschedule 1 ex_move) ex_booked) =
     Failure INDETERMINATE_DATATYPE \<and>
   rows (db_after (exec ex_later (Reschedule 1 ex_move) ex_booked)) = rows ex_booked \<and>
   response (exec ex_no_doctor (Book (ex_book 600 630)) empty_db) = Failure TYPE_ERROR \<and>
   sql (exec ex_no_doctor (Book (ex_book 600 630)) empty_db) =
     [(Client, BEGIN), (Pool, SELECT_CONFLICT), (Client, INSERT), (Client, COMMIT),
      (Client, ROLLBACK)] \<and>
   doctor_service ex_no_doctor = Ok200 None \<and>
   response (exec ex_later (NoShow 1) ex_booked) =
     Success (Some (no_show_row ex_later (ex_row SCHEDULED))) None \<and>
   last (sql (exec ex_later (NoShow 1) ex_booked)) = (Client, COMMIT)"
proof -
  have p: "pending ((pool_connect (ex_db SCHEDULED))\<lparr>pending := Some []\<rparr>) = Some []"
    "committed ((pool_connect (ex_db SCHEDULED))\<lparr>pending := Some []\<rparr>) = [ex_row SCHEDULED]"
    by (simp_all add: pool_connect_def ex_db_def)
  have b: "response (exec ex_env (Book (ex_book 600 630)) (ex_db CANCELLED)) =
     Failure UNIQUE_VIOLATION"
    "sql (exec ex_env (Book (ex_book 600 630)) (ex_db CANCELLED)) =
     [(Client, BEGIN), (Pool, SELECT_CONFLICT), (Client, INSERT), (Client, ROLLBACK)]"
    by (simp_all add: bookAppointment_eq ex_defs eval_defs)
  have r: "response (exec ex_later (Reschedule 1 ex_move) ex_booked) =
     Failure INDETERMINATE_DATATYPE"
    "sql (exec ex_later (Reschedule 1 ex_move) ex_booked) =
     [(Client, BEGIN), (Client, SELECT_BY_ID), (Pool, SELECT_CONFLICT), (Client, UPDATE),
      (Client, ROLLBACK)]"
    by (simp_all add: ex_booked_eq rescheduleAppointment_eq ex_defs ex_later_def eval_defs)
  have t: "response (exec ex_no_doctor (Book (ex_book 600 630)) empty_db) = Failure TYPE_ERROR"
    "sql (exec ex_no_doctor (Book (ex_book 600 630)) empty_db) =
     [(Client, BEGIN), (Pool, SELECT_CONFLICT), (Client, INSERT), (Client, COMMIT),
      (Client, ROLLBACK)]"
    by (simp_all add: bookAppointment_eq ex_no_doctor_def ex_defs eval_defs)
  have n: "response (exec ex_later (NoShow 1) ex_booked) =
     Success (Some (no_show_row ex_later (ex_row SCHEDULED))) None"
    by (simp add: ex_booked_eq markNoShow_eq)
  from failure_rolls_back
         [where err = SLOT_CONFLICT
            and s = "(pool_connect (ex_db SCHEDULED))\<lparr>pending := Some []\<rparr>" and l = "[]"
            and e = ex_later and c = "NoShow 1" and db = ex_booked
            and row = "Some (no_show_row ex_later (ex_row SCHEDULED))" and tier = None]
    failure_rolls_back
         [where err = UNIQUE_VIOLATION and s = "pool_connect empty_db" and l = "[]"
            and e = ex_env and c = "Book (ex_book 600 630)" and db = "ex_db CANCELLED"
            and row = None and tier = None]
    failure_rolls_back
         [where err = INDETERMINATE_DATATYPE and s = "pool_connect empty_db" and l = "[]"
            and e = ex_later and c = "Reschedule 1 ex_move" and db = ex_booked
            and row = None and tier = None]
    failure_rolls_back
         [where err = TYPE_ERROR and s = "pool_connect empty_db" and l = "[]"
            and e = ex_no_doctor and c = "Book (ex_book 600 630)" and db = empty_db
            and row = None and tier = None]
    p b r t n
  show ?thesis by simp
qed

section \<open>Best-effort calls after the commit\<close>

text \<open>
  Claim C9. Whether the billing and notification services answer or fail has no influence
  on a command's response, on the database it leaves, or on the statements it sends; and
  when a command succeeds while a collaborator it calls is down, the matching warning is
  in the log.
\<close>

theorem best_effort_failures_swallowed:
  "response (exec (e\<lparr>billing_up := b, notification_up := n\<rparr>) c db) = response (exec e c db) \<and>
   db_after (exec (e\<lparr>billing_up := b, notification_up := n\<rparr>) c db) = db_after (exec e c db) \<and>
   sql (exec (e\<lparr>billing_up := b, notification_up := n\<rparr>) c db) = sql (exec e c db) \<and>
   (response (exec e c db) = Success row tier \<longrightarrow>
      (calls_notification c \<and> \<not> notification_up e \<longrightarrow>
         Warn ''Failed to send notification'' \<in> set (logged (exec e c db))) \<and>
      (\<forall>w. billing_warning c = Some w \<and> \<not> billing_up e \<longrightarrow>
         Warn w \<in> set (logged (exec e c db))))"
proof (cases c)
  case (Book req)
  then show ?thesis
    by (simp add: bookAppointment_eq failed_def validatePatient_def validateDoctor_def
        new_row_def sendNotification_def axios_post_def
        split: sum.splits http.splits option.splits)
next
  case (Reschedule i req)
  then show ?thesis
    by (simp add: rescheduleAppointment_eq failed_def split: list.splits)
next
  case (Cancel i why)
  then show ?thesis
    by (simp add: cancelAppointment_eq failed_def cancel_row_def [abs_def]
        sendNotification_def post_billing_def axios_post_def split: list.splits)
next
  case (Complete i body)
  then show ?thesis
    by (simp add: completeAppointment_eq failed_def complete_row_def [abs_def]
        post_billing_def axios_post_def split: list.splits)
next
  case (NoShow i)
  then show ?thesis
    by (simp add: markNoShow_eq failed_def no_show_row_def [abs_def]
        post_billing_def axios_post_def split: list.splits)
qed

text \<open>
  The theorem on a cancellation of the sample appointment with both collaborators down:
  both warnings are logged, and response and database are those of the same cancellation
  with both collaborators up.
\<close>

theorem best_effort_failures_swallowed_witness:
  "response (exec ex_later (Cancel 1 None) ex_booked) =
     Success (Some (cancel_row ex_later None (ex_row SCHEDULED))) (Some CANCELLATION_FEE) \<and>
   calls_notification (Cancel 1 None) \<and> \<not> notification_up ex_later \<and>
   billing_warning (Cancel 1 None) = Some ''Failed to notify billing service'' \<and>
   \<not> billing_up ex_later \<and>
   Warn ''Failed to send notification'' \<in> set (logged (exec ex_later (Cancel 1 None) ex_booked)) \<and>
   Warn ''Failed to notify billing service'' \<in>
     set (logged (exec ex_later (Cancel 1 None) ex_booked)) \<and>
   response (exec (ex_later\<lparr>billing_up := True, notification_up := True\<rparr>) (Cancel 1 None)
               ex_booked) =
     response (exec ex_later (Cancel 1 None) ex_booked) \<and>
   db_after (exec (ex_later\<lparr>billing_up := True, notification_up := True\<rparr>) (Cancel 1 None)
               ex_booked) =
     db_after (exec ex_later (Cancel 1 None) ex_booked)"
proof -
  have c: "response (exec ex_later (Cancel 1 None) ex_booked) =
     Success (Some (cancel_row ex_later None (ex_row SCHEDULED))) (Some CANCELLATION_FEE)"
    by (simp add: ex_booked_eq cancelAppointment_eq)
  have d: "\<not> notification_up ex_later" "\<not> billing_up ex_later"
    by (simp_all add: ex_later_def ex_env_def)
  from best_effort_failures_swallowed
         [where e = ex_later and b = True and n = True and c = "Cancel 1 None"
            and db = ex_booked
            and row = "Some (cancel_row ex_later None (ex_row SCHEDULED))"
            and tier = "Some CANCELLATION_FEE"] c d
  show ?thesis by simp
qed

section \<open>The connection of the conflict query\<close>

text \<open>
  Claim C4. The statements of an accepted booking and of a reschedule, each with the
  connection that carried it: \<open>BEGIN\<close>, the write and the closing \<open>COMMIT\<close> or
  \<open>ROLLBACK\<close> go through the client that holds the transaction, the conflict query goes
  through the pool, on a connection of its own and so outside that transaction.
\<close>

theorem conflict_query_outside_transaction:
  "sql (bookAppointment ex_env (ex_book 600 630) empty_db) =
     [(Client, BEGIN), (Pool, SELECT_CONFLICT), (Client, INSERT), (Client, COMMIT)] \<and>
   sql (rescheduleAppointment ex_later 1 ex_move ex_booked) =
     [(Client, BEGIN), (Client, SELECT_BY_ID), (Pool, SELECT_CONFLICT), (Client, UPDATE),
      (Client, ROLLBACK)]"
  by (simp add: ex_booked_eq bookAppointment_eq rescheduleAppointment_eq ex_defs ex_later_def
      eval_defs)

end
